theory Spec2Isabelle
  imports Complex_Main
begin

section \<open>Pay-per-SMS over Lightning: the tools of \<open>src/server.py\<close>\<close>

text \<open>
  The server keeps one process-wide dictionary, \<open>pending_sms\<close>, and offers five tools
  that read or write it: \<open>create_sms_payment\<close>, \<open>get_sms_qr\<close>,
  \<open>get_sms_qr_with_link\<close>, \<open>pay_and_send_sms\<close> and \<open>check_charge_status\<close>.
  Each tool is modelled as a function from the dictionary (and the log of messages handed
  to Twilio) to a result and the new state. Whatever the outside world decides during a
  call (the environment variables, the answer of the OpenNode HTTP request, the answer of
  the Twilio send, what the \<open>qrcode\<close> library makes of the data) is an argument of the
  function. Every \<open>raise\<close> of the source, and
  every exception a subscript or a library call can throw on the way, is an \<open>Inl\<close> result.

  Left out: the logging calls on \<open>ctx\<close> (the tools are modelled with \<open>ctx = None\<close>), how
  the pixels of the QR code come from the data, the fixed text of the HTML template, and the human-readable
  \<open>message\<close> and \<open>instructions\<close> entries of the returned dictionaries. The variant
  \<open>src/src/mcp_server/server.py\<close> has the same tool bodies and differs only in where the
  configuration is read from; the model follows \<open>src/server.py\<close>.
\<close>

subsection \<open>Python values and exceptions\<close>

text \<open>
  What \<open>response.json()\<close> returns. A number is modelled by its value, a string by its
  UTF-8 bytes, an object by the items of the parsed dictionary (keys distinct).
\<close>

datatype json =
    JNull
  | JBool bool
  | JNum rat
  | JStr string
  | JArr "json list"
  | JObj "(string \<times> json) list"

datatype error =
    ValueError string
  | KeyError string
  | TypeError
  | AttributeError
  | JSONDecodeError
  | TransportError string
  | HTTPStatusError nat string
  | TwilioException string
  | DataOverflowError
  | UnicodeEncodeError

text \<open>\<open>v[k]\<close> for a string \<open>k\<close>: only a dictionary can be subscripted by a string.\<close>

fun getitem :: "json \<Rightarrow> string \<Rightarrow> error + json" where
  "getitem (JObj kvs) k = (case map_of kvs k of None \<Rightarrow> Inl (KeyError k) | Some v \<Rightarrow> Inr v)"
| "getitem _ k = Inl TypeError"

text \<open>\<open>v[k1][k2]\<close> and \<open>v[k1][k2][k3]\<close>, left to right.\<close>

definition getitem2 :: "json \<Rightarrow> string \<Rightarrow> string \<Rightarrow> error + json" where
  "getitem2 v k1 k2 = (case getitem v k1 of Inl e \<Rightarrow> Inl e | Inr w \<Rightarrow> getitem w k2)"

definition getitem3 :: "json \<Rightarrow> string \<Rightarrow> string \<Rightarrow> string \<Rightarrow> error + json" where
  "getitem3 v k1 k2 k3 = (case getitem2 v k1 k2 of Inl e \<Rightarrow> Inl e | Inr w \<Rightarrow> getitem w k3)"

text \<open>\<open>v.get(k)\<close>: the value or \<open>None\<close>; only a dictionary has the method.\<close>

fun dict_get :: "json \<Rightarrow> string \<Rightarrow> error + json" where
  "dict_get (JObj kvs) k = Inr (case map_of kvs k of None \<Rightarrow> JNull | Some v \<Rightarrow> v)"
| "dict_get _ k = Inl AttributeError"

text \<open>Truth value of a Python object in \<open>if v\<close>.\<close>

fun truthy :: "json \<Rightarrow> bool" where
  "truthy JNull = False"
| "truthy (JBool b) = b"
| "truthy (JNum n) = (n \<noteq> 0)"
| "truthy (JStr s) = (s \<noteq> [])"
| "truthy (JArr xs) = (xs \<noteq> [])"
| "truthy (JObj kvs) = (kvs \<noteq> [])"

text \<open>
  A dictionary key. Lists and dictionaries are unhashable; \<open>True\<close> and \<open>1\<close>, \<open>False\<close>
  and \<open>0\<close> are the same key.
\<close>

datatype pykey = KNone | KNum rat | KStr string

fun hash_key :: "json \<Rightarrow> error + pykey" where
  "hash_key JNull = Inr KNone"
| "hash_key (JBool b) = Inr (KNum (if b then 1 else 0))"
| "hash_key (JNum n) = Inr (KNum n)"
| "hash_key (JStr s) = Inr (KStr s)"
| "hash_key (JArr xs) = Inl TypeError"
| "hash_key (JObj kvs) = Inl TypeError"

text \<open>\<open>str(n)\<close> for a natural number, used for the HTTP status code in error messages.\<close>

fun show_nat :: "nat \<Rightarrow> string" where
  "show_nat n =
     (if n < 10 then [char_of (48 + n)]
      else show_nat (n div 10) @ [char_of (48 + n mod 10)])"

declare show_nat.simps [simp del]

subsection \<open>\<open>urllib.parse.quote\<close>\<close>

text \<open>
  The standard library's \<open>quote(string, safe)\<close>: a string is encoded to bytes, every byte
  that is a letter, a digit or one of \<open>_.-~\<close>, or is listed in \<open>safe\<close>, is kept, and every
  other byte becomes \<open>%XX\<close> with two upper-case hexadecimal digits. Anything that is
  neither \<open>str\<close> nor \<open>bytes\<close> raises \<open>TypeError\<close>.
\<close>

definition always_safe :: string where
  "always_safe =
     ''ABCDEFGHIJKLMNOPQRSTUVWXYZ'' @ ''abcdefghijklmnopqrstuvwxyz'' @ ''0123456789'' @ ''_.-~''"

definition hex_digit :: "nat \<Rightarrow> char" where
  "hex_digit n = ''0123456789ABCDEF'' ! (n mod 16)"

definition quoter :: "string \<Rightarrow> char \<Rightarrow> string" where
  "quoter safe c =
     (if c \<in> set (always_safe @ safe) then [c]
      else [CHR ''%'', hex_digit (of_char c div 16), hex_digit (of_char c mod 16)])"

definition quote_from_bytes :: "string \<Rightarrow> string \<Rightarrow> string" where
  "quote_from_bytes bs safe = concat (map (quoter safe) bs)"

fun quote :: "json \<Rightarrow> string \<Rightarrow> error + string" where
  "quote (JStr s) safe = Inr (quote_from_bytes s safe)"
| "quote _ safe = Inl TypeError"

subsection \<open>Configuration\<close>

text \<open>A Python \<open>float\<close>: a number, an infinity or \<open>nan\<close>.\<close>

datatype pyfloat = Finite rat | PosInf | NegInf | NaN

text \<open>
  The environment variables the server reads. \<open>sms_price_usd\<close> is what
  \<open>float(os.getenv("SMS_PRICE_USD", "0.10"))\<close> comes to: the float, or the message of the
  \<open>ValueError\<close> that \<open>float\<close> raises for a text that is not a number (the message quotes
  the text).
\<close>

record env =
  opennode_api_key :: "string option"
  twilio_account_sid :: "string option"
  twilio_auth_token :: "string option"
  twilio_phone_number :: "string option"
  sms_price_usd :: "string + pyfloat"

text \<open>\<open>not v\<close> for the result of \<open>os.getenv\<close>: unset or empty.\<close>

fun unset :: "string option \<Rightarrow> bool" where
  "unset None = True"
| "unset (Some s) = (s = [])"

definition get_sms_price :: "env \<Rightarrow> error + pyfloat" where
  "get_sms_price ev =
     (case sms_price_usd ev of
        Inl msg \<Rightarrow> Inl (ValueError msg)
      | Inr p \<Rightarrow> Inr p)"

definition get_opennode_headers :: "env \<Rightarrow> error + (string \<times> string) list" where
  "get_opennode_headers ev =
     (if unset (opennode_api_key ev) then Inl (ValueError ''OPENNODE_API_KEY not set'')
      else Inr [(''Authorization'', the (opennode_api_key ev)),
                (''Content-Type'', ''application/json'')])"

definition get_twilio_client :: "env \<Rightarrow> error + string \<times> string" where
  "get_twilio_client ev =
     (if unset (twilio_account_sid ev) \<or> unset (twilio_auth_token ev)
      then Inl (ValueError ''TWILIO credentials not set'')
      else Inr (the (twilio_account_sid ev), the (twilio_auth_token ev)))"

subsection \<open>The two providers\<close>

text \<open>
  What one OpenNode request comes back with: an exception of the HTTP client (connection
  failure, timeout, a payload it refuses to send), or a response with its status code, its text and, when the text is
  JSON, the parsed value.
\<close>

datatype http_outcome =
    TransportFault string
  | Response nat string "json option"

text \<open>
  \<open>Response.is_success\<close> of httpx: \<open>raise_for_status\<close> raises \<open>HTTPStatusError\<close> for
  every status outside 200 to 299.
\<close>

definition is_success :: "nat \<Rightarrow> bool" where
  "is_success code = (200 \<le> code \<and> code \<le> 299)"

text \<open>
  The block every tool that talks to OpenNode repeats: build the headers, send the
  request, \<open>response.raise_for_status()\<close>, \<open>response.json()\<close>.
\<close>

definition request_json :: "env \<Rightarrow> http_outcome \<Rightarrow> error + json" where
  "request_json ev outcome =
     (case get_opennode_headers ev of
        Inl e \<Rightarrow> Inl e
      | Inr headers \<Rightarrow>
          (case outcome of
             TransportFault m \<Rightarrow> Inl (TransportError m)
           | Response code text body \<Rightarrow>
               if \<not> is_success code then Inl (HTTPStatusError code text)
               else (case body of None \<Rightarrow> Inl JSONDecodeError | Some charge \<Rightarrow> Inr charge)))"

text \<open>
  The handlers of \<open>create_sms_payment\<close> and \<open>pay_and_send_sms\<close>: an
  \<open>httpx.HTTPStatusError\<close> becomes a \<open>ValueError\<close>, anything else is raised again.
\<close>

fun reraise :: "error \<Rightarrow> error" where
  "reraise (HTTPStatusError code text) =
     ValueError (''OpenNode API error: '' @ show_nat code @ '' - '' @ text)"
| "reraise e = e"

text \<open>What \<open>twilio.messages.create\<close> comes back with: the message's \<open>sid\<close>, or an exception.\<close>

datatype twilio_outcome = Sent string | SendFailed string

text \<open>One invocation of \<open>twilio.messages.create(body, from_, to)\<close>.\<close>

datatype twilio_call = MessagesCreate string string string

subsection \<open>The registry\<close>

text \<open>
  The dictionary stored under a charge id. \<open>sms_sid\<close> is \<open>None\<close> while the dictionary
  has no such key.
\<close>

record sms_request =
  user_id :: string
  phone_number :: string
  message :: string
  amount :: pyfloat
  lightning_invoice :: json
  hosted_checkout_url :: json
  status :: string
  sent :: bool
  sms_sid :: "string option"

text \<open>The state: \<open>pending_sms\<close> and, as a trace, every Twilio send that was made.\<close>

record state =
  pending_sms :: "pykey \<rightharpoonup> sms_request"
  outbox :: "twilio_call list"

definition empty_state :: state where
  "empty_state = \<lparr>pending_sms = Map.empty, outbox = []\<rparr>"

definition not_found :: "string \<Rightarrow> error" where
  "not_found charge_id = ValueError (''Charge '' @ charge_id @ '' not found'')"

subsection \<open>\<open>create_sms_payment\<close>\<close>

record create_result =
  cr_charge_id :: json
  cr_amount :: pyfloat
  cr_currency :: string
  cr_phone_number :: string
  cr_lightning_invoice :: json
  cr_hosted_checkout_url :: json
  cr_expires_at :: json

text \<open>The dictionary literal stored under the new charge id.\<close>

definition new_request :: "string \<Rightarrow> string \<Rightarrow> string \<Rightarrow> pyfloat \<Rightarrow> json \<Rightarrow> json \<Rightarrow> sms_request" where
  "new_request uid phone msg price invoice hosted =
     \<lparr>user_id = uid, phone_number = phone, message = msg, amount = price,
      lightning_invoice = invoice, hosted_checkout_url = hosted,
      status = ''pending'', sent = False, sms_sid = None\<rparr>"

text \<open>
  The statements of the \<open>try\<close> block in their order: the price, the request, the two
  fields read into variables, the dictionary literal (which reads
  \<open>hosted_checkout_url\<close>), the store under \<open>charge_id\<close>, and then the returned
  dictionary, which reads \<open>expires_at\<close> for the first time. The first failure ends the
  call, in the state reached by then.
\<close>

definition create_sms_payment ::
  "env \<Rightarrow> http_outcome \<Rightarrow> string \<Rightarrow> string \<Rightarrow> string \<Rightarrow> state \<Rightarrow> (error + create_result) \<times> state" where
  "create_sms_payment ev post phone msg uid st =
     (case get_sms_price ev of
        Inl e \<Rightarrow> (Inl (reraise e), st)
      | Inr price \<Rightarrow>
     (case request_json ev post of
        Inl e \<Rightarrow> (Inl (reraise e), st)
      | Inr charge \<Rightarrow>
     (case getitem2 charge ''data'' ''id'' of
        Inl e \<Rightarrow> (Inl (reraise e), st)
      | Inr charge_id \<Rightarrow>
     (case getitem3 charge ''data'' ''lightning_invoice'' ''payreq'' of
        Inl e \<Rightarrow> (Inl (reraise e), st)
      | Inr invoice \<Rightarrow>
     (case getitem2 charge ''data'' ''hosted_checkout_url'' of
        Inl e \<Rightarrow> (Inl (reraise e), st)
      | Inr hosted \<Rightarrow>
     (case hash_key charge_id of
        Inl e \<Rightarrow> (Inl (reraise e), st)
      | Inr key \<Rightarrow>
          let st' = st\<lparr>pending_sms :=
                      (pending_sms st)(key \<mapsto> new_request uid phone msg price invoice hosted)\<rparr>
          in (case getitem3 charge ''data'' ''lightning_invoice'' ''expires_at'' of
                Inl e \<Rightarrow> (Inl (reraise e), st')
              | Inr expires \<Rightarrow>
                  (Inr \<lparr>cr_charge_id = charge_id, cr_amount = price, cr_currency = ''USD'',
                        cr_phone_number = phone, cr_lightning_invoice = invoice,
                        cr_hosted_checkout_url = hosted, cr_expires_at = expires\<rparr>,
                   st'))))))))"

subsection \<open>\<open>get_sms_qr\<close> and \<open>get_sms_qr_with_link\<close>\<close>

text \<open>
  What the \<open>qrcode\<close> library comes back with for the data \<open>generate_qr_code\<close> hands it:
  the bytes of the PNG picture, or the exception it raises (\<open>DataOverflowError\<close> when the
  data do not fit the largest code at error correction level Q, \<open>UnicodeEncodeError\<close> for
  a string that cannot be encoded).
\<close>

datatype qr_outcome = Png string | QrRaised error

text \<open>\<open>Image(data=..., format="png")\<close>.\<close>

datatype image = Image string string

definition generate_qr_code :: "qr_outcome \<Rightarrow> json \<Rightarrow> error + image" where
  "generate_qr_code qr data =
     (case qr of QrRaised e \<Rightarrow> Inl e | Png bytes \<Rightarrow> Inr (Image bytes ''png''))"

definition get_sms_qr :: "qr_outcome \<Rightarrow> string \<Rightarrow> state \<Rightarrow> (error + image) \<times> state" where
  "get_sms_qr qr charge_id st =
     (case pending_sms st (KStr charge_id) of
        None \<Rightarrow> (Inl (not_found charge_id), st)
      | Some r \<Rightarrow> (generate_qr_code qr (lightning_invoice r), st))"

definition generate_lightning_deep_link :: "json \<Rightarrow> error + string" where
  "generate_lightning_deep_link invoice =
     (case quote invoice [] of Inl e \<Rightarrow> Inl e | Inr q \<Rightarrow> Inr (''lightning:'' @ q))"

text \<open>
  The three places where the HTML template interpolates a value: the target of
  \<open>openWallet\<close> and of the button, the statement run after the delay, and the link of
  the fallback block. \<open>"'" + hosted_checkout + "'"\<close> is evaluated only when
  \<open>hosted_checkout\<close> is true, and raises \<open>TypeError\<close> unless it is a string.
\<close>

record html_snippet =
  wallet_target :: string
  delayed_statement :: string
  fallback_link :: string

definition render_html :: "string \<Rightarrow> json \<Rightarrow> error + html_snippet" where
  "render_html deep_link hosted_checkout =
     (if truthy hosted_checkout then
        (case hosted_checkout of
           JStr url \<Rightarrow>
             Inr \<lparr>wallet_target = deep_link,
                  delayed_statement = ''window.location = '' @ [CHR 0x27] @ url @ [CHR 0x27] @ '';'',
                  fallback_link = url\<rparr>
         | _ \<Rightarrow> Inl TypeError)
      else
        Inr \<lparr>wallet_target = deep_link,
             delayed_statement =
               ''document.getElementById('' @ [CHR 0x27] @ ''fallback'' @ [CHR 0x27]
                 @ '').style.display='' @ [CHR 0x27] @ ''block'' @ [CHR 0x27] @ '';'',
             fallback_link = deep_link\<rparr>)"

text \<open>
  \<open>get_sms_qr_with_link\<close> draws the picture first, so it fails when \<open>generate_qr_code\<close>
  does; the picture is not part of what it returns.
\<close>

record link_result =
  deep_link :: string
  lr_hosted_checkout_url :: json
  mobile_html :: html_snippet

definition get_sms_qr_with_link ::
  "qr_outcome \<Rightarrow> string \<Rightarrow> state \<Rightarrow> (error + link_result) \<times> state" where
  "get_sms_qr_with_link qr charge_id st =
     (case pending_sms st (KStr charge_id) of
        None \<Rightarrow> (Inl (not_found charge_id), st)
      | Some data \<Rightarrow>
        (case generate_qr_code qr (lightning_invoice data) of
           Inl e \<Rightarrow> (Inl e, st)
         | Inr picture \<Rightarrow>
          (case generate_lightning_deep_link (lightning_invoice data) of
             Inl e \<Rightarrow> (Inl e, st)
           | Inr link \<Rightarrow>
               (case render_html link (hosted_checkout_url data) of
                  Inl e \<Rightarrow> (Inl e, st)
                | Inr html \<Rightarrow>
                    (Inr \<lparr>deep_link = link,
                          lr_hosted_checkout_url = hosted_checkout_url data,
                          mobile_html = html\<rparr>, st)))))"

subsection \<open>\<open>pay_and_send_sms\<close>\<close>

text \<open>The returned dictionary; an entry that a branch leaves out is \<open>None\<close>.\<close>

record pay_result =
  r_charge_id :: string
  r_status :: json
  r_paid :: bool
  r_sms_sent :: bool
  r_sms_sid :: "string option"
  r_to :: "string option"
  r_from :: "string option"
  r_paid_at :: "json option"

text \<open>The three assignments after a successful send.\<close>

definition mark_sent :: "string \<Rightarrow> sms_request \<Rightarrow> sms_request" where
  "mark_sent sid r = r\<lparr>sent := True, status := ''completed'', sms_sid := Some sid\<rparr>"

text \<open>
  The branch \<open>if not sms_request["sent"]\<close>: the client, the sender number, the send
  (logged in \<open>outbox\<close> whether it succeeds or not), the three assignments, the result.
\<close>

definition send_and_mark ::
  "env \<Rightarrow> twilio_outcome \<Rightarrow> string \<Rightarrow> json \<Rightarrow> sms_request \<Rightarrow> state \<Rightarrow> (error + pay_result) \<times> state" where
  "send_and_mark ev tw charge_id charge sms_request st =
     (case get_twilio_client ev of
        Inl e \<Rightarrow> (Inl (reraise e), st)
      | Inr twilio \<Rightarrow>
          if unset (twilio_phone_number ev)
          then (Inl (reraise (ValueError ''TWILIO_PHONE_NUMBER not set'')), st)
          else
            let from_number = the (twilio_phone_number ev);
                st1 = st\<lparr>outbox := outbox st @
                        [MessagesCreate (message sms_request) from_number (phone_number sms_request)]\<rparr>
            in (case tw of
                  SendFailed m \<Rightarrow> (Inl (reraise (TwilioException m)), st1)
                | Sent sid \<Rightarrow>
                    let st2 = st1\<lparr>pending_sms :=
                                (pending_sms st1)(KStr charge_id \<mapsto> mark_sent sid sms_request)\<rparr>
                    in (case getitem charge ''data'' of
                          Inl e \<Rightarrow> (Inl (reraise e), st2)
                        | Inr data \<Rightarrow>
                            (case dict_get data ''paid_at'' of
                               Inl e \<Rightarrow> (Inl (reraise e), st2)
                             | Inr paid_at \<Rightarrow>
                                 (Inr \<lparr>r_charge_id = charge_id, r_status = JStr ''completed'',
                                       r_paid = True, r_sms_sent = True, r_sms_sid = Some sid,
                                       r_to = Some (phone_number sms_request),
                                       r_from = Some from_number, r_paid_at = Some paid_at\<rparr>,
                                  st2)))))"

definition pay_and_send_sms ::
  "env \<Rightarrow> http_outcome \<Rightarrow> twilio_outcome \<Rightarrow> string \<Rightarrow> state \<Rightarrow> (error + pay_result) \<times> state" where
  "pay_and_send_sms ev query tw charge_id st =
     (case pending_sms st (KStr charge_id) of
        None \<Rightarrow> (Inl (not_found charge_id), st)
      | Some sms_request \<Rightarrow>
          (case request_json ev query of
             Inl e \<Rightarrow> (Inl (reraise e), st)
           | Inr charge \<Rightarrow>
               (case getitem2 charge ''data'' ''status'' of
                  Inl e \<Rightarrow> (Inl (reraise e), st)
                | Inr charge_status \<Rightarrow>
                    if charge_status \<noteq> JStr ''paid'' then
                      (Inr \<lparr>r_charge_id = charge_id, r_status = charge_status, r_paid = False,
                            r_sms_sent = False, r_sms_sid = None, r_to = None, r_from = None,
                            r_paid_at = None\<rparr>, st)
                    else if \<not> sent sms_request then
                      send_and_mark ev tw charge_id charge sms_request st
                    else
                      (Inr \<lparr>r_charge_id = charge_id, r_status = JStr ''completed'', r_paid = True,
                            r_sms_sent = True, r_sms_sid = None, r_to = None, r_from = None,
                            r_paid_at = None\<rparr>, st))))"

subsection \<open>\<open>check_charge_status\<close>\<close>

record status_result =
  s_charge_id :: string
  s_payment_status :: json
  s_sms_sent :: bool
  s_phone_number :: string
  s_amount :: pyfloat
  s_created_at :: json
  s_paid_at :: json

text \<open>The handler raises every exception again unchanged.\<close>

definition check_charge_status ::
  "env \<Rightarrow> http_outcome \<Rightarrow> string \<Rightarrow> state \<Rightarrow> (error + status_result) \<times> state" where
  "check_charge_status ev query charge_id st =
     (case pending_sms st (KStr charge_id) of
        None \<Rightarrow> (Inl (not_found charge_id), st)
      | Some sms_request \<Rightarrow>
          (case request_json ev query of
             Inl e \<Rightarrow> (Inl e, st)
           | Inr charge \<Rightarrow>
               (case getitem2 charge ''data'' ''status'' of
                  Inl e \<Rightarrow> (Inl e, st)
                | Inr payment_status \<Rightarrow>
                    (case getitem2 charge ''data'' ''created_at'' of
                       Inl e \<Rightarrow> (Inl e, st)
                     | Inr created \<Rightarrow>
                         (case getitem charge ''data'' of
                            Inl e \<Rightarrow> (Inl e, st)
                          | Inr data \<Rightarrow>
                              (case dict_get data ''paid_at'' of
                                 Inl e \<Rightarrow> (Inl e, st)
                               | Inr paid_at \<Rightarrow>
                                   (Inr \<lparr>s_charge_id = charge_id,
                                         s_payment_status = payment_status,
                                         s_sms_sent = sent sms_request,
                                         s_phone_number = phone_number sms_request,
                                         s_amount = amount sms_request,
                                         s_created_at = created, s_paid_at = paid_at\<rparr>,
                                    st)))))))"

subsection \<open>Sequences of tool calls\<close>

text \<open>
  A tool call with its arguments and with what the outside world answered during it.
\<close>

datatype call =
    CreateSmsPayment env http_outcome string string string
  | GetSmsQr qr_outcome string
  | GetSmsQrWithLink qr_outcome string
  | PayAndSendSms env http_outcome twilio_outcome string
  | CheckChargeStatus env http_outcome string

fun step :: "call \<Rightarrow> state \<Rightarrow> state" where
  "step (CreateSmsPayment ev post phone msg uid) st = snd (create_sms_payment ev post phone msg uid st)"
| "step (GetSmsQr qr charge_id) st = snd (get_sms_qr qr charge_id st)"
| "step (GetSmsQrWithLink qr charge_id) st = snd (get_sms_qr_with_link qr charge_id st)"
| "step (PayAndSendSms ev query tw charge_id) st = snd (pay_and_send_sms ev query tw charge_id st)"
| "step (CheckChargeStatus ev query charge_id) st = snd (check_charge_status ev query charge_id st)"

text \<open>The state after a sequence of calls, the first call first.\<close>

fun run :: "call list \<Rightarrow> state \<Rightarrow> state" where
  "run [] st = st"
| "run (c # cs) st = run cs (step c st)"

subsection \<open>The invariant of a stored request\<close>

text \<open>
  A request is either as \<open>create_sms_payment\<close> stores it (pending, not sent, no
  \<open>sms_sid\<close>) or as the three assignments of \<open>pay_and_send_sms\<close> leave it (completed,
  sent, with an \<open>sms_sid\<close>).
\<close>

definition request_ok :: "sms_request \<Rightarrow> bool" where
  "request_ok r =
     (if sent r then status r = ''completed'' \<and> sms_sid r \<noteq> None
      else status r = ''pending'' \<and> sms_sid r = None)"

definition registry_ok :: "state \<Rightarrow> bool" where
  "registry_ok st = (\<forall>k r. pending_sms st k = Some r \<longrightarrow> request_ok r)"

subsection \<open>A scenario\<close>

text \<open>
  The scenario of the specification: a charge \<open>ch_1\<close> for the message \<open>Hello\<close> to
  \<open>+15551234567\<close> at 0.10 USD, first unpaid, then paid.
\<close>

definition demo_env :: env where
  "demo_env =
     \<lparr>opennode_api_key = Some ''key'', twilio_account_sid = Some ''AC1'',
      twilio_auth_token = Some ''token'', twilio_phone_number = Some ''+15550000000'',
      sms_price_usd = Inr (Finite (1 / 10))\<rparr>"

definition demo_invoice :: json where
  "demo_invoice = JObj [(''payreq'', JStr ''lntb1/x=y''), (''expires_at'', JNum 1700003600)]"

definition demo_charge :: json where
  "demo_charge =
     JObj [(''data'', JObj [(''id'', JStr ''ch_1''),
                            (''lightning_invoice'', demo_invoice),
                            (''hosted_checkout_url'', JStr ''https://checkout.example/ch_1'')])]"

definition demo_created :: http_outcome where
  "demo_created = Response 201 [] (Some demo_charge)"

text \<open>The same charge in a response whose invoice has no \<open>expires_at\<close>.\<close>

definition demo_charge_no_expiry :: json where
  "demo_charge_no_expiry =
     JObj [(''data'', JObj [(''id'', JStr ''ch_1''),
                            (''lightning_invoice'', JObj [(''payreq'', JStr ''lntb1/x=y'')]),
                            (''hosted_checkout_url'', JStr ''https://checkout.example/ch_1'')])]"

definition demo_unpaid :: http_outcome where
  "demo_unpaid =
     Response 200 []
       (Some (JObj [(''data'', JObj [(''status'', JStr ''unpaid''),
                                     (''created_at'', JNum 1700000000)])]))"

definition demo_paid_charge :: json where
  "demo_paid_charge =
     JObj [(''data'', JObj [(''status'', JStr ''paid''),
                            (''created_at'', JNum 1700000000),
                            (''paid_at'', JNum 1700000060)])]"

definition demo_paid :: http_outcome where
  "demo_paid = Response 200 [] (Some demo_paid_charge)"

definition demo_request :: sms_request where
  "demo_request =
     new_request ''anonymous'' ''+15551234567'' ''Hello'' (Finite (1 / 10)) (JStr ''lntb1/x=y'')
       (JStr ''https://checkout.example/ch_1'')"

text \<open>The state after the charge was created, and after it was paid and the SMS sent.\<close>

definition demo_pending :: state where
  "demo_pending = \<lparr>pending_sms = [KStr ''ch_1'' \<mapsto> demo_request], outbox = []\<rparr>"

definition demo_png :: qr_outcome where
  "demo_png = Png ''PNG''"

definition demo_sms :: twilio_call where
  "demo_sms = MessagesCreate ''Hello'' ''+15550000000'' ''+15551234567''"

definition demo_completed :: state where
  "demo_completed =
     \<lparr>pending_sms = [KStr ''ch_1'' \<mapsto> mark_sent ''SM1'' demo_request], outbox = [demo_sms]\<rparr>"

definition demo_calls :: "call list" where
  "demo_calls =
     [CreateSmsPayment demo_env demo_created ''+15551234567'' ''Hello'' ''anonymous'',
      CheckChargeStatus demo_env demo_unpaid ''ch_1'',
      PayAndSendSms demo_env demo_paid (Sent ''SM1'') ''ch_1'']"

section \<open>Properties\<close>

subsection \<open>Unfolding and evaluation\<close>

lemmas demo_defs = demo_env_def demo_invoice_def demo_charge_def demo_created_def
  demo_charge_no_expiry_def demo_unpaid_def demo_paid_charge_def demo_paid_def
  demo_request_def demo_pending_def demo_sms_def demo_completed_def demo_calls_def
  demo_png_def

lemmas tool_defs = create_sms_payment_def get_sms_qr_def get_sms_qr_with_link_def
  generate_qr_code_def
  pay_and_send_sms_def send_and_mark_def check_charge_status_def request_json_def
  get_opennode_headers_def get_twilio_client_def get_sms_price_def getitem2_def getitem3_def
  is_success_def new_request_def mark_sent_def empty_state_def Let_def

text \<open>The scenario runs as its states say.\<close>

lemma demo_pending_reached:
  "run [CreateSmsPayment demo_env demo_created ''+15551234567'' ''Hello'' ''anonymous'']
     empty_state = demo_pending"
  by (simp add: demo_defs tool_defs)

lemma demo_completed_reached: "run demo_calls empty_state = demo_completed"
  by (simp add: demo_defs tool_defs)

subsection \<open>Where a call can end\<close>

lemma request_json_Inr:
  "request_json ev outcome = Inr charge \<longleftrightarrow>
     \<not> unset (opennode_api_key ev) \<and>
     (\<exists>code text. outcome = Response code text (Some charge) \<and> is_success code)"
  by (auto simp: request_json_def get_opennode_headers_def split: http_outcome.splits option.splits)

lemma getitem_sibling:
  "getitem v k = Inr w \<Longrightarrow> getitem v k' = Inl e \<Longrightarrow> e = KeyError k'"
  by (cases v) (auto split: option.splits)

lemma getitem3_sibling:
  "getitem3 v k1 k2 k3 = Inr w \<Longrightarrow> getitem3 v k1 k2 k3' = Inl e \<Longrightarrow> e = KeyError k3'"
  by (auto simp: getitem3_def split: sum.splits dest: getitem_sibling)

lemma getitem_other_key: "getitem v k = Inl e \<Longrightarrow> k \<noteq> k' \<Longrightarrow> reraise e \<noteq> KeyError k'"
  by (cases v) (auto split: option.splits)

lemma getitem2_other_key:
  "getitem2 v k1 k2 = Inl e \<Longrightarrow> k1 \<noteq> k' \<Longrightarrow> k2 \<noteq> k' \<Longrightarrow> reraise e \<noteq> KeyError k'"
  by (auto simp: getitem2_def split: sum.splits dest: getitem_other_key)

lemma getitem3_other_key:
  "getitem3 v k1 k2 k3 = Inl e \<Longrightarrow> k1 \<noteq> k' \<Longrightarrow> k2 \<noteq> k' \<Longrightarrow> k3 \<noteq> k' \<Longrightarrow> reraise e \<noteq> KeyError k'"
  by (auto simp: getitem3_def split: sum.splits dest: getitem_other_key getitem2_other_key)

lemma request_json_other: "request_json ev outcome = Inl e \<Longrightarrow> reraise e \<noteq> KeyError k"
  by (auto simp: request_json_def get_opennode_headers_def
      split: http_outcome.splits option.splits sum.splits if_splits)

lemma hash_key_other: "hash_key v = Inl e \<Longrightarrow> reraise e \<noteq> KeyError k"
  by (cases v) auto

lemma get_sms_price_other: "get_sms_price ev = Inl e \<Longrightarrow> reraise e \<noteq> KeyError k"
  by (auto simp: get_sms_price_def split: sum.splits)

text \<open>Where a call of create_sms_payment can end.\<close>

lemma create_cases:
  assumes "create_sms_payment ev post phone msg uid st = (res, st')"
  shows "(st' = st \<and> (\<exists>e. res = Inl e \<and> e \<noteq> KeyError ''expires_at'')) \<or>
     (\<exists>price charge charge_id invoice hosted key.
        get_sms_price ev = Inr price \<and> request_json ev post = Inr charge \<and>
        getitem2 charge ''data'' ''id'' = Inr charge_id \<and>
        getitem3 charge ''data'' ''lightning_invoice'' ''payreq'' = Inr invoice \<and>
        getitem2 charge ''data'' ''hosted_checkout_url'' = Inr hosted \<and>
        hash_key charge_id = Inr key \<and>
        st' = st\<lparr>pending_sms := (pending_sms st)(key \<mapsto> new_request uid phone msg price invoice hosted)\<rparr> \<and>
        (case getitem3 charge ''data'' ''lightning_invoice'' ''expires_at'' of
           Inl e \<Rightarrow> res = Inl (KeyError ''expires_at'')
         | Inr expires \<Rightarrow> res = Inr \<lparr>cr_charge_id = charge_id, cr_amount = price, cr_currency = ''USD'',
                        cr_phone_number = phone, cr_lightning_invoice = invoice,
                        cr_hosted_checkout_url = hosted, cr_expires_at = expires\<rparr>))"
proof (cases "get_sms_price ev")
  case (Inl e)
  with assms get_sms_price_other [OF Inl, of "''expires_at''"] show ?thesis
      by (auto simp: create_sms_payment_def)
next
  case price: (Inr price)
  show ?thesis
  proof (cases "request_json ev post")
    case (Inl e)
    with assms price request_json_other [OF Inl, of "''expires_at''"] show ?thesis
      by (auto simp: create_sms_payment_def)
  next
    case charge: (Inr charge)
    show ?thesis
    proof (cases "getitem2 charge ''data'' ''id''")
      case (Inl e)
      with assms price charge getitem2_other_key [OF Inl, of "''expires_at''"] show ?thesis
        by (auto simp: create_sms_payment_def)
    next
      case cid: (Inr charge_id)
      show ?thesis
      proof (cases "getitem3 charge ''data'' ''lightning_invoice'' ''payreq''")
        case (Inl e)
        with assms price charge cid getitem3_other_key [OF Inl, of "''expires_at''"] show ?thesis
          by (auto simp: create_sms_payment_def)
      next
        case inv: (Inr invoice)
        show ?thesis
        proof (cases "getitem2 charge ''data'' ''hosted_checkout_url''")
          case (Inl e)
          with assms price charge cid inv getitem2_other_key [OF Inl, of "''expires_at''"] show ?thesis
            by (auto simp: create_sms_payment_def)
        next
          case hosted: (Inr hosted)
          show ?thesis
          proof (cases "hash_key charge_id")
            case (Inl e)
            with assms price charge cid inv hosted hash_key_other [OF Inl, of "''expires_at''"] show ?thesis
      by (auto simp: create_sms_payment_def)
          next
            case key: (Inr key)
            show ?thesis
            proof (cases "getitem3 charge ''data'' ''lightning_invoice'' ''expires_at''")
              case (Inl e)
              with getitem3_sibling [OF inv Inl] have "e = KeyError ''expires_at''" by simp
              with assms price charge cid inv hosted key Inl show ?thesis
                by (simp add: create_sms_payment_def Let_def)
            next
              case (Inr expires)
              with assms price charge cid inv hosted key show ?thesis
                by (simp add: create_sms_payment_def Let_def)
            qed
          qed
        qed
      qed
    qed
  qed
qed

lemma send_and_mark_cases:
  assumes "send_and_mark ev tw cid charge r st = (res, st')"
  shows "(st' = st \<and> (\<exists>e. res = Inl e)) \<or>
     (\<exists>m. tw = SendFailed m \<and> res = Inl (TwilioException m) \<and>
        st' = st\<lparr>outbox := outbox st @
          [MessagesCreate (message r) (the (twilio_phone_number ev)) (phone_number r)]\<rparr>) \<or>
     (\<exists>sid. tw = Sent sid \<and>
        st' = \<lparr>pending_sms = (pending_sms st)(KStr cid \<mapsto> mark_sent sid r),
               outbox = outbox st @
                 [MessagesCreate (message r) (the (twilio_phone_number ev)) (phone_number r)]\<rparr> \<and>
        (\<forall>p. res = Inr p \<longrightarrow> r_sms_sid p = Some sid \<and> r_sms_sent p))"
proof (cases "get_twilio_client ev")
  case (Inl e)
  with assms show ?thesis by (auto simp: send_and_mark_def)
next
  case client: (Inr client)
  show ?thesis
  proof (cases "unset (twilio_phone_number ev)")
    case True
    with assms client show ?thesis by (auto simp: send_and_mark_def)
  next
    case number: False
    show ?thesis
    proof (cases tw)
      case (SendFailed m)
      with assms client number show ?thesis by (auto simp: send_and_mark_def Let_def)
    next
      case (Sent sid)
      with assms client number show ?thesis
        by (auto simp: send_and_mark_def Let_def split: sum.splits)
    qed
  qed
qed

lemma pay_cases:
  assumes "pay_and_send_sms ev query tw cid st = (res, st')"
  shows "(st' = st \<and> (\<forall>p. res = Inr p \<longrightarrow> r_sms_sid p = None)) \<or>
     (\<exists>r charge. pending_sms st (KStr cid) = Some r \<and> \<not> sent r \<and>
        request_json ev query = Inr charge \<and>
        getitem2 charge ''data'' ''status'' = Inr (JStr ''paid'') \<and>
        send_and_mark ev tw cid charge r st = (res, st'))"
proof (cases "pending_sms st (KStr cid)")
  case None
  with assms show ?thesis by (auto simp: pay_and_send_sms_def)
next
  case reg: (Some r)
  show ?thesis
  proof (cases "request_json ev query")
    case (Inl e)
    with assms reg show ?thesis by (auto simp: pay_and_send_sms_def)
  next
    case charge: (Inr charge)
    show ?thesis
    proof (cases "getitem2 charge ''data'' ''status''")
      case (Inl e)
      with assms reg charge show ?thesis by (auto simp: pay_and_send_sms_def)
    next
      case (Inr s)
      with assms reg charge show ?thesis
        by (cases "s = JStr ''paid''"; cases "sent r") (auto simp: pay_and_send_sms_def)
    qed
  qed
qed


subsection \<open>Failure of \<open>create_sms_payment\<close>\<close>

text \<open>
  Claim C4, as the code has it. A call of \<open>create_sms_payment\<close> that fails with anything
  but the \<open>KeyError\<close> of a missing \<open>expires_at\<close> leaves the state as it was: a missing
  price or API key, a transport fault, a response that is not a success, a body that is
  not JSON, a missing or ill-typed \<open>data\<close>, \<open>id\<close>, \<open>lightning_invoice\<close>, \<open>payreq\<close> or
  \<open>hosted_checkout_url\<close>, an unhashable id. And the state changes only when the provider
  answered with a success status and a JSON body.
\<close>

theorem create_failure_keeps_registry:
  assumes "create_sms_payment ev post phone msg uid st = (res, st')"
  shows "(\<forall>e. res = Inl e \<and> e \<noteq> KeyError ''expires_at'' \<longrightarrow> st' = st)
       \<and> (st' \<noteq> st \<longrightarrow>
            (\<exists>code text charge. post = Response code text (Some charge) \<and> is_success code))"
proof -
  from create_cases [OF assms] show ?thesis
  proof (elim disjE conjE exE)
    assume "st' = st"
    then show ?thesis by simp
  next
    fix price charge charge_id invoice hosted key
    assume rj: "request_json ev post = Inr charge"
      and inv: "getitem3 charge ''data'' ''lightning_invoice'' ''payreq'' = Inr invoice"
      and res: "case getitem3 charge ''data'' ''lightning_invoice'' ''expires_at'' of
           Inl e \<Rightarrow> res = Inl (KeyError ''expires_at'')
         | Inr expires \<Rightarrow> res = Inr \<lparr>cr_charge_id = charge_id, cr_amount = price, cr_currency = ''USD'',
                        cr_phone_number = phone, cr_lightning_invoice = invoice,
                        cr_hosted_checkout_url = hosted, cr_expires_at = expires\<rparr>"
    from res have "\<forall>e. res = Inl e \<and> e \<noteq> KeyError ''expires_at'' \<longrightarrow> st' = st"
      by (cases "getitem3 charge ''data'' ''lightning_invoice'' ''expires_at''") auto
    moreover from rj have "\<exists>code text charge. post = Response code text (Some charge) \<and> is_success code"
      by (auto simp: request_json_Inr)
    ultimately show ?thesis by simp
  qed
qed



theorem create_failure_keeps_registry_witness:
  "fst (create_sms_payment demo_env (Response 404 ''nope'' None) ''+15551234567'' ''Hello''
          ''anonymous'' demo_pending)
     = Inl (ValueError (''OpenNode API error: '' @ show_nat 404 @ '' - nope''))
   \<and> snd (create_sms_payment demo_env (Response 404 ''nope'' None) ''+15551234567'' ''Hello''
          ''anonymous'' demo_pending) = demo_pending"
proof -
  let ?c = "create_sms_payment demo_env (Response 404 ''nope'' None) ''+15551234567'' ''Hello''
          ''anonymous'' demo_pending"
  have h: "?c = (fst ?c, snd ?c)" by simp
  have r: "fst ?c = Inl (ValueError (''OpenNode API error: '' @ show_nat 404 @ '' - nope''))"
    by (simp add: demo_defs tool_defs)
  from create_failure_keeps_registry [OF h] r show ?thesis by simp
qed

text \<open>
  Claim C4 as stated fails: when the provider's answer has every field but
  \<open>expires_at\<close>, the call raises \<open>KeyError\<close> while building the returned dictionary, after
  the request was stored.
\<close>

theorem create_failure_after_store_counterexample:
  "create_sms_payment demo_env (Response 201 [] (Some demo_charge_no_expiry)) ''+15551234567''
     ''Hello'' ''anonymous'' empty_state = (Inl (KeyError ''expires_at''), demo_pending)
   \<and> pending_sms empty_state (KStr ''ch_1'') = None
   \<and> pending_sms demo_pending (KStr ''ch_1'') = Some demo_request"
  by (simp add: demo_defs tool_defs)

subsection \<open>Unknown charge ids\<close>

text \<open>
  Claim C5. For a charge id that is not a key of \<open>pending_sms\<close>, each of \<open>get_sms_qr\<close>,
  \<open>get_sms_qr_with_link\<close>, \<open>pay_and_send_sms\<close> and \<open>check_charge_status\<close> raises
  \<open>ValueError("Charge <id> not found")\<close>, whatever the providers would have answered, and
  leaves the state as it was.
\<close>

theorem unknown_charge_not_found:
  assumes "pending_sms st (KStr charge_id) = None"
  shows "get_sms_qr qr charge_id st = (Inl (not_found charge_id), st)
       \<and> get_sms_qr_with_link qr charge_id st = (Inl (not_found charge_id), st)
       \<and> pay_and_send_sms ev query tw charge_id st = (Inl (not_found charge_id), st)
       \<and> check_charge_status ev query charge_id st = (Inl (not_found charge_id), st)
       \<and> not_found charge_id = ValueError (''Charge '' @ charge_id @ '' not found'')"
  using assms
  by (simp add: get_sms_qr_def get_sms_qr_with_link_def pay_and_send_sms_def
      check_charge_status_def not_found_def)

theorem unknown_charge_not_found_witness:
  "pending_sms demo_pending (KStr ''ch_2'') = None
   \<and> get_sms_qr demo_png ''ch_2'' demo_pending = (Inl (not_found ''ch_2''), demo_pending)
   \<and> get_sms_qr_with_link demo_png ''ch_2'' demo_pending
       = (Inl (not_found ''ch_2''), demo_pending)
   \<and> pay_and_send_sms demo_env demo_paid (Sent ''SM1'') ''ch_2'' demo_pending
       = (Inl (not_found ''ch_2''), demo_pending)
   \<and> check_charge_status demo_env demo_paid ''ch_2'' demo_pending
       = (Inl (not_found ''ch_2''), demo_pending)"
proof -
  have h: "pending_sms demo_pending (KStr ''ch_2'') = None"
    by (simp add: demo_pending_def)
  from unknown_charge_not_found [OF h, of demo_png demo_env demo_paid "Sent ''SM1''"] h
  show ?thesis by blast
qed

subsection \<open>A charge that is not paid\<close>

text \<open>
  Claim C7. For a registered charge whose provider query succeeds and reports a status
  other than the string \<open>paid\<close>, \<open>pay_and_send_sms\<close> returns the report with that status,
  \<open>paid = False\<close> and \<open>sms_sent = False\<close>, and the state is the one before the call: no
  entry of \<open>pending_sms\<close> has changed and nothing was handed to Twilio.
\<close>

theorem unpaid_charge_no_effect:
  assumes "pending_sms st (KStr charge_id) = Some r"
    and "request_json ev query = Inr charge"
    and "getitem2 charge ''data'' ''status'' = Inr s"
    and "s \<noteq> JStr ''paid''"
  shows "pay_and_send_sms ev query tw charge_id st =
           (Inr \<lparr>r_charge_id = charge_id, r_status = s, r_paid = False, r_sms_sent = False,
                  r_sms_sid = None, r_to = None, r_from = None, r_paid_at = None\<rparr>, st)"
  using assms by (simp add: pay_and_send_sms_def)

theorem unpaid_charge_no_effect_witness:
  "pay_and_send_sms demo_env demo_unpaid (Sent ''SM1'') ''ch_1'' demo_pending =
     (Inr \<lparr>r_charge_id = ''ch_1'', r_status = JStr ''unpaid'', r_paid = False,
            r_sms_sent = False, r_sms_sid = None, r_to = None, r_from = None,
            r_paid_at = None\<rparr>, demo_pending)"
proof -
  have reg: "pending_sms demo_pending (KStr ''ch_1'') = Some demo_request"
    by (simp add: demo_pending_def)
  have query: "request_json demo_env demo_unpaid =
      Inr (JObj [(''data'', JObj [(''status'', JStr ''unpaid''), (''created_at'', JNum 1700000000)])])"
    by (simp add: demo_defs tool_defs)
  have st: "getitem2 (JObj [(''data'', JObj [(''status'', JStr ''unpaid''), (''created_at'', JNum 1700000000)])])
      ''data'' ''status'' = Inr (JStr ''unpaid'')"
    by (simp add: getitem2_def)
  have ne: "JStr ''unpaid'' \<noteq> JStr ''paid''" by simp
  from unpaid_charge_no_effect [OF reg query st ne] show ?thesis .
qed

subsection \<open>\<open>check_charge_status\<close> only reads\<close>

text \<open>
  Claim C8. \<open>check_charge_status\<close> never changes the state, whatever it is given. For
  a registered charge, when the provider query succeeds and its \<open>data\<close> has a \<open>status\<close>
  and a \<open>created_at\<close>, the result is made of \<open>sent\<close>, \<open>phone_number\<close> and \<open>amount\<close> of the
  stored request and of \<open>status\<close>, \<open>created_at\<close> and \<open>paid_at\<close> (\<open>None\<close> when absent) of
  the provider's answer.
\<close>

theorem check_charge_status_read_only:
  "snd (check_charge_status ev query charge_id st) = st
   \<and> (pending_sms st (KStr charge_id) = Some r \<longrightarrow>
      request_json ev query = Inr charge \<longrightarrow>
      getitem charge ''data'' = Inr (JObj kvs) \<longrightarrow>
      map_of kvs ''status'' = Some payment_status \<longrightarrow>
      map_of kvs ''created_at'' = Some created \<longrightarrow>
      fst (check_charge_status ev query charge_id st) =
        Inr \<lparr>s_charge_id = charge_id, s_payment_status = payment_status,
             s_sms_sent = sent r, s_phone_number = phone_number r, s_amount = amount r,
             s_created_at = created,
             s_paid_at = (case map_of kvs ''paid_at'' of None \<Rightarrow> JNull | Some v \<Rightarrow> v)\<rparr>)"
proof
  show "snd (check_charge_status ev query charge_id st) = st"
    by (simp add: check_charge_status_def split: option.splits sum.splits)
next
  show "pending_sms st (KStr charge_id) = Some r \<longrightarrow>
      request_json ev query = Inr charge \<longrightarrow>
      getitem charge ''data'' = Inr (JObj kvs) \<longrightarrow>
      map_of kvs ''status'' = Some payment_status \<longrightarrow>
      map_of kvs ''created_at'' = Some created \<longrightarrow>
      fst (check_charge_status ev query charge_id st) =
        Inr \<lparr>s_charge_id = charge_id, s_payment_status = payment_status,
             s_sms_sent = sent r, s_phone_number = phone_number r, s_amount = amount r,
             s_created_at = created,
             s_paid_at = (case map_of kvs ''paid_at'' of None \<Rightarrow> JNull | Some v \<Rightarrow> v)\<rparr>"
    by (simp add: check_charge_status_def getitem2_def)
qed

theorem check_charge_status_read_only_witness:
  "snd (check_charge_status demo_env demo_paid ''ch_1'' demo_completed) = demo_completed
   \<and> fst (check_charge_status demo_env demo_paid ''ch_1'' demo_completed) =
        Inr \<lparr>s_charge_id = ''ch_1'', s_payment_status = JStr ''paid'',
             s_sms_sent = True, s_phone_number = ''+15551234567'', s_amount = Finite (1 / 10),
             s_created_at = JNum 1700000000, s_paid_at = JNum 1700000060\<rparr>"
proof -
  let ?kvs = "[(''status'', JStr ''paid''), (''created_at'', JNum 1700000000),
               (''paid_at'', JNum 1700000060)]"
  have reg: "pending_sms demo_completed (KStr ''ch_1'') = Some (mark_sent ''SM1'' demo_request)"
    by (simp add: demo_completed_def)
  have query: "request_json demo_env demo_paid = Inr demo_paid_charge"
    by (simp add: demo_defs tool_defs)
  have data: "getitem demo_paid_charge ''data'' = Inr (JObj ?kvs)"
    by (simp add: demo_paid_charge_def)
  have s: "map_of ?kvs ''status'' = Some (JStr ''paid'')" by simp
  have c: "map_of ?kvs ''created_at'' = Some (JNum 1700000000)" by simp
  from check_charge_status_read_only
    [of demo_env demo_paid "''ch_1''" demo_completed "mark_sent ''SM1'' demo_request"
        demo_paid_charge ?kvs "JStr ''paid''" "JNum 1700000000"]
    reg query data s c
  show ?thesis by (simp add: mark_sent_def demo_request_def new_request_def)
qed

subsection \<open>Storing under a charge id that is already a key\<close>

text \<open>
  Claim C2, as the code has it. When the provider answers a charge creation with an id
  that is already a key of \<open>pending_sms\<close>, \<open>create_sms_payment\<close> succeeds: the
  assignment replaces the stored request by the new one (pending, not sent, no
  \<open>sms_sid\<close>), every other entry stays, and the payment details are returned.
\<close>

theorem create_overwrites_existing:
  assumes "pending_sms st key = Some old"
    and "get_sms_price ev = Inr price"
    and "request_json ev post = Inr charge"
    and "getitem2 charge ''data'' ''id'' = Inr charge_id"
    and "hash_key charge_id = Inr key"
    and "getitem3 charge ''data'' ''lightning_invoice'' ''payreq'' = Inr invoice"
    and "getitem2 charge ''data'' ''hosted_checkout_url'' = Inr hosted"
    and "getitem3 charge ''data'' ''lightning_invoice'' ''expires_at'' = Inr expires"
  shows "create_sms_payment ev post phone msg uid st =
           (Inr \<lparr>cr_charge_id = charge_id, cr_amount = price, cr_currency = ''USD'',
                  cr_phone_number = phone, cr_lightning_invoice = invoice,
                  cr_hosted_checkout_url = hosted, cr_expires_at = expires\<rparr>,
            st\<lparr>pending_sms := (pending_sms st)(key \<mapsto>
                  \<lparr>user_id = uid, phone_number = phone, message = msg, amount = price,
                   lightning_invoice = invoice, hosted_checkout_url = hosted,
                   status = ''pending'', sent = False, sms_sid = None\<rparr>)\<rparr>)"
  using assms by (simp add: create_sms_payment_def Let_def new_request_def)

theorem create_overwrites_existing_witness:
  "pending_sms (snd (create_sms_payment demo_env demo_created ''+15557654321'' ''Again'' ''bob''
       demo_completed)) (KStr ''ch_1'')
     = Some \<lparr>user_id = ''bob'', phone_number = ''+15557654321'', message = ''Again'',
             amount = Finite (1 / 10), lightning_invoice = JStr ''lntb1/x=y'',
             hosted_checkout_url = JStr ''https://checkout.example/ch_1'',
             status = ''pending'', sent = False, sms_sid = None\<rparr>"
proof -
  have old: "pending_sms demo_completed (KStr ''ch_1'') = Some (mark_sent ''SM1'' demo_request)"
    by (simp add: demo_completed_def)
  have price: "get_sms_price demo_env = Inr (Finite (1 / 10))"
    by (simp add: demo_env_def get_sms_price_def)
  have charge: "request_json demo_env demo_created = Inr demo_charge"
    by (simp add: demo_defs tool_defs)
  have cid: "getitem2 demo_charge ''data'' ''id'' = Inr (JStr ''ch_1'')"
    by (simp add: demo_defs getitem2_def)
  have key: "hash_key (JStr ''ch_1'') = Inr (KStr ''ch_1'')" by simp
  have inv: "getitem3 demo_charge ''data'' ''lightning_invoice'' ''payreq'' = Inr (JStr ''lntb1/x=y'')"
    by (simp add: demo_defs getitem2_def getitem3_def)
  have hosted: "getitem2 demo_charge ''data'' ''hosted_checkout_url''
      = Inr (JStr ''https://checkout.example/ch_1'')"
    by (simp add: demo_defs getitem2_def)
  have expires: "getitem3 demo_charge ''data'' ''lightning_invoice'' ''expires_at''
      = Inr (JNum 1700003600)"
    by (simp add: demo_defs getitem2_def getitem3_def)
  from create_overwrites_existing [OF old price charge cid key inv hosted expires,
      of "''+15557654321''" "''Again''" "''bob''"]
  show ?thesis by simp
qed

text \<open>
  Claim C2 as stated fails: no \<open>DuplicateKey\<close> is raised. Here \<open>ch_1\<close> is registered and
  already completed; a second creation answered with the id \<open>ch_1\<close> succeeds and replaces
  the entry.
\<close>

theorem create_overwrites_existing_counterexample:
  "pending_sms demo_completed (KStr ''ch_1'') = Some (mark_sent ''SM1'' demo_request)
   \<and> create_sms_payment demo_env demo_created ''+15557654321'' ''Again'' ''bob'' demo_completed =
       (Inr \<lparr>cr_charge_id = JStr ''ch_1'', cr_amount = Finite (1 / 10), cr_currency = ''USD'',
             cr_phone_number = ''+15557654321'', cr_lightning_invoice = JStr ''lntb1/x=y'',
             cr_hosted_checkout_url = JStr ''https://checkout.example/ch_1'',
             cr_expires_at = JNum 1700003600\<rparr>,
        \<lparr>pending_sms = [KStr ''ch_1'' \<mapsto>
            new_request ''bob'' ''+15557654321'' ''Again'' (Finite (1 / 10)) (JStr ''lntb1/x=y'')
              (JStr ''https://checkout.example/ch_1'')],
         outbox = [demo_sms]\<rparr>)"
  by (simp add: demo_defs tool_defs)

subsection \<open>The invariant holds in every reachable state\<close>

text \<open>
  The two shapes of a stored request are kept by every tool: \<open>create_sms_payment\<close> stores
  a request of the first shape, \<open>pay_and_send_sms\<close> turns a request into the second
  shape, and nothing else writes to \<open>pending_sms\<close>.
\<close>

lemma request_ok_new_request: "request_ok (new_request uid phone msg price invoice hosted)"
  by (simp add: request_ok_def new_request_def)

lemma request_ok_mark_sent: "request_ok (mark_sent sid r)"
  by (simp add: request_ok_def mark_sent_def)

lemma registry_ok_empty: "registry_ok empty_state"
  by (simp add: registry_ok_def empty_state_def)

lemma registry_ok_outbox: "registry_ok (st\<lparr>outbox := xs\<rparr>) = registry_ok st"
  by (simp add: registry_ok_def)

lemma registry_ok_create:
  assumes "registry_ok st" and "create_sms_payment ev post phone msg uid st = (res, st')"
  shows "registry_ok st'"
  using create_cases [OF assms(2)] assms(1)
  by (auto simp: registry_ok_def request_ok_new_request split: if_splits)

lemma registry_ok_pay:
  assumes "registry_ok st" and "pay_and_send_sms ev query tw cid st = (res, st')"
  shows "registry_ok st'"
proof -
  from pay_cases [OF assms(2)] show ?thesis
  proof (elim disjE conjE exE)
    assume "st' = st"
    with assms(1) show ?thesis by simp
  next
    fix r charge
    assume "send_and_mark ev tw cid charge r st = (res, st')"
    from send_and_mark_cases [OF this] assms(1) show ?thesis
      by (auto simp: registry_ok_def request_ok_mark_sent split: if_splits)
  qed
qed

lemma get_sms_qr_state: "snd (get_sms_qr qr cid st) = st"
  by (simp add: get_sms_qr_def split: option.splits)

lemma get_sms_qr_with_link_state: "snd (get_sms_qr_with_link qr cid st) = st"
  by (simp add: get_sms_qr_with_link_def split: option.splits sum.splits)

lemma check_charge_status_state: "snd (check_charge_status ev query cid st) = st"
  by (simp add: check_charge_status_def split: option.splits sum.splits)

lemma registry_ok_step: "registry_ok st \<Longrightarrow> registry_ok (step c st)"
proof (cases c)
  case (CreateSmsPayment ev post phone msg uid)
  assume "registry_ok st"
  from registry_ok_create [OF this, of ev post phone msg uid] CreateSmsPayment
  show ?thesis by (simp add: prod_eq_iff)
next
  case (PayAndSendSms ev query tw cid)
  assume "registry_ok st"
  from registry_ok_pay [OF this, of ev query tw cid] PayAndSendSms
  show ?thesis by (simp add: prod_eq_iff)
qed (simp_all add: get_sms_qr_state get_sms_qr_with_link_state check_charge_status_state)

lemma registry_ok_run: "registry_ok st \<Longrightarrow> registry_ok (run calls st)"
  by (induction calls arbitrary: st) (simp_all add: registry_ok_step)

text \<open>
  Claim C6. In the state after any sequence of tool calls from the empty registry, a
  stored request with \<open>sent = True\<close> has an \<open>sms_sid\<close> and the status \<open>completed\<close>.
\<close>

theorem sent_has_receipt_and_completed:
  assumes "pending_sms (run calls empty_state) k = Some r" and "sent r"
  shows "sms_sid r \<noteq> None \<and> status r = ''completed''"
proof -
  have "registry_ok (run calls empty_state)"
    by (rule registry_ok_run) (rule registry_ok_empty)
  with assms(1) have "request_ok r" by (simp add: registry_ok_def)
  with assms(2) show ?thesis by (simp add: request_ok_def)
qed

theorem sent_has_receipt_and_completed_witness:
  "pending_sms (run demo_calls empty_state) (KStr ''ch_1'') = Some (mark_sent ''SM1'' demo_request)
   \<and> sent (mark_sent ''SM1'' demo_request)
   \<and> sms_sid (mark_sent ''SM1'' demo_request) \<noteq> None
   \<and> status (mark_sent ''SM1'' demo_request) = ''completed''"
proof -
  have reg: "pending_sms (run demo_calls empty_state) (KStr ''ch_1'')
      = Some (mark_sent ''SM1'' demo_request)"
    by (simp add: demo_completed_reached demo_completed_def)
  have s: "sent (mark_sent ''SM1'' demo_request)" by (simp add: mark_sent_def)
  from sent_has_receipt_and_completed [OF reg s] reg s show ?thesis by blast
qed

subsection \<open>The deep link\<close>

lemma render_html_returns:
  "\<not> truthy h \<or> (\<exists>url. h = JStr url) \<Longrightarrow> \<exists>html. render_html link h = Inr html"
  by (cases h) (auto simp: render_html_def)

text \<open>
  Claim C10. For a registered charge, whenever \<open>get_sms_qr_with_link\<close> returns, the
  stored invoice is a string, \<open>deep_link\<close> is \<open>lightning:\<close> followed by that invoice
  quoted with the empty \<open>safe\<close> set (only letters, digits and \<open>_.-~\<close> are kept), the
  returned \<open>hosted_checkout_url\<close> is the stored one, and the state is unchanged. And it
  does return when the QR picture can be drawn, the stored invoice is a string and the
  stored URL is a string or is false in Python's sense (\<open>None\<close> for one).
\<close>

theorem deep_link_of_registered_charge:
  assumes "pending_sms st (KStr charge_id) = Some r"
  shows "(\<forall>res st'. get_sms_qr_with_link qr charge_id st = (Inr res, st') \<longrightarrow>
            (\<exists>invoice. lightning_invoice r = JStr invoice
               \<and> deep_link res = ''lightning:'' @ quote_from_bytes invoice [])
            \<and> lr_hosted_checkout_url res = hosted_checkout_url r \<and> st' = st)
       \<and> (\<forall>invoice bytes. qr = Png bytes \<longrightarrow> lightning_invoice r = JStr invoice \<longrightarrow>
            (\<not> truthy (hosted_checkout_url r) \<or> (\<exists>url. hosted_checkout_url r = JStr url)) \<longrightarrow>
            (\<exists>res. get_sms_qr_with_link qr charge_id st = (Inr res, st)))"
proof -
  have returned: "(\<exists>invoice. lightning_invoice r = JStr invoice
               \<and> deep_link res = ''lightning:'' @ quote_from_bytes invoice [])
            \<and> lr_hosted_checkout_url res = hosted_checkout_url r \<and> st' = st"
    if ret: "get_sms_qr_with_link qr charge_id st = (Inr res, st')" for res st'
  proof (cases "lightning_invoice r")
    case (JStr invoice)
    with ret assms show ?thesis
      by (auto simp: get_sms_qr_with_link_def generate_lightning_deep_link_def split: sum.splits)
  qed (use ret assms in \<open>simp_all add: get_sms_qr_with_link_def
        generate_lightning_deep_link_def split: sum.splits\<close>)
  have returns: "\<exists>res. get_sms_qr_with_link qr charge_id st = (Inr res, st)"
    if png: "qr = Png bytes" and inv: "lightning_invoice r = JStr invoice"
      and hosted: "\<not> truthy (hosted_checkout_url r) \<or> (\<exists>url. hosted_checkout_url r = JStr url)"
    for invoice bytes
  proof -
    from render_html_returns [OF hosted] obtain html where
      "render_html (''lightning:'' @ quote_from_bytes invoice []) (hosted_checkout_url r) = Inr html"
      by blast
    with png inv assms show ?thesis
      by (simp add: get_sms_qr_with_link_def generate_lightning_deep_link_def
          generate_qr_code_def)
  qed
  from returned returns show ?thesis by blast
qed

theorem deep_link_of_registered_charge_witness:
  "pending_sms demo_pending (KStr ''ch_1'') = Some demo_request
   \<and> fst (get_sms_qr_with_link demo_png ''ch_1'' demo_pending) =
       Inr \<lparr>deep_link = ''lightning:lntb1%2Fx%3Dy'',
            lr_hosted_checkout_url = JStr ''https://checkout.example/ch_1'',
            mobile_html = \<lparr>wallet_target = ''lightning:lntb1%2Fx%3Dy'',
              delayed_statement = ''window.location = '' @ [CHR 0x27]
                @ ''https://checkout.example/ch_1'' @ [CHR 0x27] @ '';'',
              fallback_link = ''https://checkout.example/ch_1''\<rparr>\<rparr>
   \<and> (\<exists>invoice. lightning_invoice demo_request = JStr invoice
        \<and> ''lightning:lntb1%2Fx%3Dy'' = ''lightning:'' @ quote_from_bytes invoice [])
   \<and> (\<exists>res. get_sms_qr_with_link demo_png ''ch_1'' demo_pending = (Inr res, demo_pending))"
proof -
  have reg: "pending_sms demo_pending (KStr ''ch_1'') = Some demo_request"
    by (simp add: demo_pending_def)
  have q: "quote_from_bytes ''lntb1/x=y'' [] = ''lntb1%2Fx%3Dy''"
    by (simp add: quote_from_bytes_def quoter_def always_safe_def hex_digit_def)
  have ret: "get_sms_qr_with_link demo_png ''ch_1'' demo_pending =
       (Inr \<lparr>deep_link = ''lightning:lntb1%2Fx%3Dy'',
            lr_hosted_checkout_url = JStr ''https://checkout.example/ch_1'',
            mobile_html = \<lparr>wallet_target = ''lightning:lntb1%2Fx%3Dy'',
              delayed_statement = ''window.location = '' @ [CHR 0x27]
                @ ''https://checkout.example/ch_1'' @ [CHR 0x27] @ '';'',
              fallback_link = ''https://checkout.example/ch_1''\<rparr>\<rparr>, demo_pending)"
    by (simp add: get_sms_qr_with_link_def generate_lightning_deep_link_def render_html_def
        generate_qr_code_def demo_png_def demo_pending_def demo_request_def new_request_def q)
  have png: "demo_png = Png ''PNG''" by (simp add: demo_png_def)
  have inv: "lightning_invoice demo_request = JStr ''lntb1/x=y''"
    by (simp add: demo_request_def new_request_def)
  have hosted: "\<not> truthy (hosted_checkout_url demo_request)
      \<or> (\<exists>url. hosted_checkout_url demo_request = JStr url)"
    by (simp add: demo_request_def new_request_def)
  note inst = deep_link_of_registered_charge [OF reg, of demo_png]
  from inst ret
  have a: "\<exists>invoice. lightning_invoice demo_request = JStr invoice
        \<and> deep_link \<lparr>deep_link = ''lightning:lntb1%2Fx%3Dy'',
            lr_hosted_checkout_url = JStr ''https://checkout.example/ch_1'',
            mobile_html = \<lparr>wallet_target = ''lightning:lntb1%2Fx%3Dy'',
              delayed_statement = ''window.location = '' @ [CHR 0x27]
                @ ''https://checkout.example/ch_1'' @ [CHR 0x27] @ '';'',
              fallback_link = ''https://checkout.example/ch_1''\<rparr>\<rparr>
          = ''lightning:'' @ quote_from_bytes invoice []"
    by blast
  from inst png inv hosted
  have b: "\<exists>res. get_sms_qr_with_link demo_png ''ch_1'' demo_pending = (Inr res, demo_pending)"
    by blast
  from reg ret a b show ?thesis by simp
qed

text \<open>
  When the picture cannot be drawn, the tool fails with the library's exception, for a
  registered charge too.
\<close>

lemma get_sms_qr_with_link_overflow:
  "get_sms_qr_with_link (QrRaised DataOverflowError) ''ch_1'' demo_pending
     = (Inl DataOverflowError, demo_pending)
   \<and> get_sms_qr (QrRaised DataOverflowError) ''ch_1'' demo_pending
     = (Inl DataOverflowError, demo_pending)"
  by (simp add: get_sms_qr_with_link_def get_sms_qr_def generate_qr_code_def demo_pending_def)

subsection \<open>A send that fails\<close>

lemma pay_sends:
  assumes "pending_sms st (KStr cid) = Some r" and "\<not> sent r"
    and "request_json ev query = Inr charge"
    and "getitem2 charge ''data'' ''status'' = Inr (JStr ''paid'')"
  shows "pay_and_send_sms ev query tw cid st = send_and_mark ev tw cid charge r st"
  using assms by (simp add: pay_and_send_sms_def)

lemma send_and_mark_outbox:
  assumes "get_twilio_client ev = Inr client" and "\<not> unset (twilio_phone_number ev)"
  shows "outbox (snd (send_and_mark ev tw cid charge r st)) =
           outbox st @ [MessagesCreate (message r) (the (twilio_phone_number ev)) (phone_number r)]"
  using assms by (cases tw) (simp_all add: send_and_mark_def Let_def split: sum.splits)

text \<open>
  Claim C3. For a registered charge that is not sent and that the provider reports as
  \<open>paid\<close>, in a state reached by tool calls from the empty registry, a Twilio send that
  raises makes \<open>pay_and_send_sms\<close> fail with that exception and leaves \<open>pending_sms\<close> as
  it was, so the request is still unsent, pending and without \<open>sms_sid\<close>; and the next
  \<open>pay_and_send_sms\<close> for the charge that finds it \<open>paid\<close> hands the message to Twilio again.
\<close>

theorem failed_send_keeps_request:
  assumes reach: "st = run calls empty_state"
    and reg: "pending_sms st (KStr charge_id) = Some r" and unsent: "\<not> sent r"
    and query: "request_json ev query = Inr charge"
    and paid: "getitem2 charge ''data'' ''status'' = Inr (JStr ''paid'')"
    and client: "get_twilio_client ev = Inr client"
    and number: "\<not> unset (twilio_phone_number ev)"
    and first: "pay_and_send_sms ev query (SendFailed m) charge_id st = (res, st1)"
    and query2: "request_json ev2 query2 = Inr charge2"
    and paid2: "getitem2 charge2 ''data'' ''status'' = Inr (JStr ''paid'')"
    and client2: "get_twilio_client ev2 = Inr client2"
    and number2: "\<not> unset (twilio_phone_number ev2)"
  shows "res = Inl (TwilioException m)
       \<and> pending_sms st1 = pending_sms st
       \<and> pending_sms st1 (KStr charge_id) = Some r
       \<and> status r = ''pending'' \<and> sms_sid r = None
       \<and> outbox (snd (pay_and_send_sms ev2 query2 tw2 charge_id st1)) =
           outbox st1 @ [MessagesCreate (message r) (the (twilio_phone_number ev2)) (phone_number r)]"
proof -
  from reach have "registry_ok st"
    by (simp add: registry_ok_run registry_ok_empty)
  with reg have "request_ok r" by (simp add: registry_ok_def)
  with unsent have pending: "status r = ''pending'' \<and> sms_sid r = None"
    by (simp add: request_ok_def)
  from first pay_sends [OF reg unsent query paid]
  have "send_and_mark ev (SendFailed m) charge_id charge r st = (res, st1)" by simp
  with client number have res: "res = Inl (TwilioException m)"
    and st1: "st1 = st\<lparr>outbox := outbox st @
        [MessagesCreate (message r) (the (twilio_phone_number ev)) (phone_number r)]\<rparr>"
    by (auto simp: send_and_mark_def Let_def)
  from st1 have same: "pending_sms st1 = pending_sms st" by simp
  with reg have reg1: "pending_sms st1 (KStr charge_id) = Some r" by simp
  from pay_sends [OF reg1 unsent query2 paid2] send_and_mark_outbox [OF client2 number2]
  have "outbox (snd (pay_and_send_sms ev2 query2 tw2 charge_id st1)) =
           outbox st1 @ [MessagesCreate (message r) (the (twilio_phone_number ev2)) (phone_number r)]"
    by simp
  with res same reg1 pending show ?thesis by simp
qed

theorem failed_send_keeps_request_witness:
  "pay_and_send_sms demo_env demo_paid (SendFailed ''rejected'') ''ch_1'' demo_pending =
     (Inl (TwilioException ''rejected''), demo_pending\<lparr>outbox := [demo_sms]\<rparr>)
   \<and> pending_sms (demo_pending\<lparr>outbox := [demo_sms]\<rparr>) (KStr ''ch_1'') = Some demo_request
   \<and> status demo_request = ''pending'' \<and> sms_sid demo_request = None
   \<and> outbox (snd (pay_and_send_sms demo_env demo_paid (Sent ''SM1'') ''ch_1''
        (demo_pending\<lparr>outbox := [demo_sms]\<rparr>))) = [demo_sms, demo_sms]"
proof -
  have reach: "demo_pending =
      run [CreateSmsPayment demo_env demo_created ''+15551234567'' ''Hello'' ''anonymous'']
        empty_state"
    by (simp only: demo_pending_reached)
  have reg: "pending_sms demo_pending (KStr ''ch_1'') = Some demo_request"
    by (simp add: demo_pending_def)
  have unsent: "\<not> sent demo_request"
    by (simp add: demo_request_def new_request_def)
  have query: "request_json demo_env demo_paid = Inr demo_paid_charge"
    by (simp add: demo_defs tool_defs)
  have paid: "getitem2 demo_paid_charge ''data'' ''status'' = Inr (JStr ''paid'')"
    by (simp add: demo_paid_charge_def getitem2_def)
  have client: "get_twilio_client demo_env = Inr (''AC1'', ''token'')"
    by (simp add: demo_env_def get_twilio_client_def)
  have number: "\<not> unset (twilio_phone_number demo_env)"
    by (simp add: demo_env_def)
  have first: "pay_and_send_sms demo_env demo_paid (SendFailed ''rejected'') ''ch_1'' demo_pending =
     (Inl (TwilioException ''rejected''), demo_pending\<lparr>outbox := [demo_sms]\<rparr>)"
    by (simp add: demo_defs tool_defs)
  from failed_send_keeps_request
    [OF reach reg unsent query paid client number first query paid client number,
      of "Sent ''SM1''"]
    first
  show ?thesis
    by (simp add: demo_pending_def demo_sms_def demo_request_def new_request_def demo_env_def)
qed

subsection \<open>A second call after the SMS was sent\<close>

lemma pay_delivered:
  assumes "pay_and_send_sms ev query tw cid st = (Inr res, st')" and "r_sms_sid res = Some sid"
  shows "\<exists>r. pending_sms st (KStr cid) = Some r \<and> \<not> sent r \<and> tw = Sent sid \<and>
           st' = \<lparr>pending_sms = (pending_sms st)(KStr cid \<mapsto> mark_sent sid r),
                  outbox = outbox st @
                    [MessagesCreate (message r) (the (twilio_phone_number ev)) (phone_number r)]\<rparr>"
proof -
  from pay_cases [OF assms(1)] assms(2)
  obtain r charge where reg: "pending_sms st (KStr cid) = Some r" and unsent: "\<not> sent r"
    and sm: "send_and_mark ev tw cid charge r st = (Inr res, st')"
    by auto
  from send_and_mark_cases [OF sm] assms(2) have
    "tw = Sent sid \<and> st' = \<lparr>pending_sms = (pending_sms st)(KStr cid \<mapsto> mark_sent sid r),
                  outbox = outbox st @
                    [MessagesCreate (message r) (the (twilio_phone_number ev)) (phone_number r)]\<rparr>"
    by auto
  with reg unsent show ?thesis by blast
qed

text \<open>
  Claim C1, as the code has it. After a call of \<open>pay_and_send_sms\<close> that sent the SMS and
  returned its \<open>sms_sid\<close>, a second call that finds the charge \<open>paid\<close> returns
  \<open>sms_sent = True\<close> and the status \<open>completed\<close> with no \<open>sms_sid\<close> entry, and changes
  nothing: the stored request keeps the \<open>sms_sid\<close> of the first call, and over both calls
  Twilio was invoked once.
\<close>

theorem second_call_after_delivery:
  assumes first: "pay_and_send_sms ev query tw charge_id st = (Inr res, st1)"
    and receipt: "r_sms_sid res = Some sid"
    and query2: "request_json ev2 query2 = Inr charge2"
    and paid2: "getitem2 charge2 ''data'' ''status'' = Inr (JStr ''paid'')"
  shows "pay_and_send_sms ev2 query2 tw2 charge_id st1 =
           (Inr \<lparr>r_charge_id = charge_id, r_status = JStr ''completed'', r_paid = True,
                  r_sms_sent = True, r_sms_sid = None, r_to = None, r_from = None,
                  r_paid_at = None\<rparr>, st1)
       \<and> (\<exists>r. pending_sms st1 (KStr charge_id) = Some r \<and> sent r \<and> sms_sid r = Some sid)
       \<and> (\<exists>sms. outbox st1 = outbox st @ [sms])"
proof -
  from pay_delivered [OF first receipt] obtain r where
    st1: "st1 = \<lparr>pending_sms = (pending_sms st)(KStr charge_id \<mapsto> mark_sent sid r),
                  outbox = outbox st @
                    [MessagesCreate (message r) (the (twilio_phone_number ev)) (phone_number r)]\<rparr>"
    by blast
  then have reg1: "pending_sms st1 (KStr charge_id) = Some (mark_sent sid r)" by simp
  have m: "sent (mark_sent sid r)" "sms_sid (mark_sent sid r) = Some sid"
    by (simp_all add: mark_sent_def)
  from reg1 m query2 paid2 have
    "pay_and_send_sms ev2 query2 tw2 charge_id st1 =
           (Inr \<lparr>r_charge_id = charge_id, r_status = JStr ''completed'', r_paid = True,
                  r_sms_sent = True, r_sms_sid = None, r_to = None, r_from = None,
                  r_paid_at = None\<rparr>, st1)"
    by (simp add: pay_and_send_sms_def)
  moreover from reg1 m have
    "\<exists>r. pending_sms st1 (KStr charge_id) = Some r \<and> sent r \<and> sms_sid r = Some sid"
    by blast
  moreover from st1 have "\<exists>sms. outbox st1 = outbox st @ [sms]" by simp
  ultimately show ?thesis by blast
qed

theorem second_call_after_delivery_witness:
  "pay_and_send_sms demo_env demo_paid (Sent ''SM1'') ''ch_1'' demo_pending =
     (Inr \<lparr>r_charge_id = ''ch_1'', r_status = JStr ''completed'', r_paid = True,
            r_sms_sent = True, r_sms_sid = Some ''SM1'', r_to = Some ''+15551234567'',
            r_from = Some ''+15550000000'', r_paid_at = Some (JNum 1700000060)\<rparr>,
      demo_completed)
   \<and> pay_and_send_sms demo_env demo_paid (Sent ''SM2'') ''ch_1'' demo_completed =
     (Inr \<lparr>r_charge_id = ''ch_1'', r_status = JStr ''completed'', r_paid = True,
            r_sms_sent = True, r_sms_sid = None, r_to = None, r_from = None,
            r_paid_at = None\<rparr>, demo_completed)
   \<and> (\<exists>sms. outbox demo_completed = outbox demo_pending @ [sms])"
proof -
  have first: "pay_and_send_sms demo_env demo_paid (Sent ''SM1'') ''ch_1'' demo_pending =
     (Inr \<lparr>r_charge_id = ''ch_1'', r_status = JStr ''completed'', r_paid = True,
            r_sms_sent = True, r_sms_sid = Some ''SM1'', r_to = Some ''+15551234567'',
            r_from = Some ''+15550000000'', r_paid_at = Some (JNum 1700000060)\<rparr>,
      demo_completed)"
    by (simp add: demo_defs tool_defs)
  have receipt: "r_sms_sid \<lparr>r_charge_id = ''ch_1'', r_status = JStr ''completed'', r_paid = True,
            r_sms_sent = True, r_sms_sid = Some ''SM1'', r_to = Some ''+15551234567'',
            r_from = Some ''+15550000000'', r_paid_at = Some (JNum 1700000060)\<rparr> = Some ''SM1''"
    by simp
  have query: "request_json demo_env demo_paid = Inr demo_paid_charge"
    by (simp add: demo_defs tool_defs)
  have paid: "getitem2 demo_paid_charge ''data'' ''status'' = Inr (JStr ''paid'')"
    by (simp add: demo_paid_charge_def getitem2_def)
  from second_call_after_delivery [OF first receipt query paid, of "Sent ''SM2''"] first
  show ?thesis by blast
qed

text \<open>
  Claim C1 as stated fails: the second call does not return the receipt id of the first.
\<close>

theorem second_call_without_receipt_counterexample:
  "fst (pay_and_send_sms demo_env demo_paid (Sent ''SM1'') ''ch_1'' demo_pending) =
     Inr \<lparr>r_charge_id = ''ch_1'', r_status = JStr ''completed'', r_paid = True,
            r_sms_sent = True, r_sms_sid = Some ''SM1'', r_to = Some ''+15551234567'',
            r_from = Some ''+15550000000'', r_paid_at = Some (JNum 1700000060)\<rparr>
   \<and> snd (pay_and_send_sms demo_env demo_paid (Sent ''SM1'') ''ch_1'' demo_pending)
       = demo_completed
   \<and> fst (pay_and_send_sms demo_env demo_paid (Sent ''SM2'') ''ch_1'' demo_completed) =
     Inr \<lparr>r_charge_id = ''ch_1'', r_status = JStr ''completed'', r_paid = True,
            r_sms_sent = True, r_sms_sid = None, r_to = None, r_from = None,
            r_paid_at = None\<rparr>"
  by (simp add: demo_defs tool_defs)

subsection \<open>The two writes to a stored request\<close>

text \<open>
  What \<open>create_sms_payment\<close> stores, what a successful send makes of a request, and that
  \<open>pay_and_send_sms\<close> changes no other entry and changes this one in no other way.
\<close>

lemma create_stores_pending:
  assumes "create_sms_payment ev post phone msg uid st = (Inr res, st')"
  shows "\<exists>key r. hash_key (cr_charge_id res) = Inr key \<and> pending_sms st' key = Some r
           \<and> status r = ''pending'' \<and> \<not> sent r \<and> sms_sid r = None"
proof -
  from create_cases [OF assms] obtain price charge charge_id invoice hosted key where
    key: "hash_key charge_id = Inr key"
    and st': "st' = st\<lparr>pending_sms :=
        (pending_sms st)(key \<mapsto> new_request uid phone msg price invoice hosted)\<rparr>"
    and res: "case getitem3 charge ''data'' ''lightning_invoice'' ''expires_at'' of
           Inl e \<Rightarrow> Inr res = (Inl (KeyError ''expires_at'') :: error + create_result)
         | Inr expires \<Rightarrow> Inr res = (Inr \<lparr>cr_charge_id = charge_id, cr_amount = price,
                        cr_currency = ''USD'',
                        cr_phone_number = phone, cr_lightning_invoice = invoice,
                        cr_hosted_checkout_url = hosted, cr_expires_at = expires\<rparr>
                        :: error + create_result)"
    by auto
  from res have "cr_charge_id res = charge_id"
    by (cases "getitem3 charge ''data'' ''lightning_invoice'' ''expires_at''") auto
  with key st' show ?thesis by (simp add: new_request_def)
qed

lemma pay_marks_sent:
  assumes "pending_sms st (KStr cid) = Some r" and "\<not> sent r"
    and "request_json ev query = Inr charge"
    and "getitem2 charge ''data'' ''status'' = Inr (JStr ''paid'')"
    and "get_twilio_client ev = Inr client" and "\<not> unset (twilio_phone_number ev)"
  shows "pending_sms (snd (pay_and_send_sms ev query (Sent sid) cid st)) (KStr cid) =
           Some (r\<lparr>sent := True, status := ''completed'', sms_sid := Some sid\<rparr>)"
proof -
  from assms(5,6)
  have "pending_sms (snd (send_and_mark ev (Sent sid) cid charge r st)) (KStr cid) =
           Some (mark_sent sid r)"
    by (simp add: send_and_mark_def Let_def split: sum.splits)
  with pay_sends [OF assms(1-4)] show ?thesis by (simp add: mark_sent_def)
qed

lemma pay_frame:
  assumes "pay_and_send_sms ev query tw cid st = (res, st')"
  shows "pending_sms st' k = pending_sms st k \<or>
         (k = KStr cid \<and> (\<exists>r sid. pending_sms st k = Some r \<and> \<not> sent r \<and> tw = Sent sid \<and>
            pending_sms st' k = Some (r\<lparr>sent := True, status := ''completed'', sms_sid := Some sid\<rparr>)))"
proof -
  from pay_cases [OF assms] show ?thesis
  proof (elim disjE conjE exE)
    assume "st' = st"
    then show ?thesis by simp
  next
    fix r charge
    assume reg: "pending_sms st (KStr cid) = Some r" and unsent: "\<not> sent r"
      and sm: "send_and_mark ev tw cid charge r st = (res, st')"
    from send_and_mark_cases [OF sm] reg unsent show ?thesis
      by (cases "k = KStr cid") (auto simp: mark_sent_def)
  qed
qed

text \<open>
  Claim C9. In the state after any sequence of tool calls from the empty registry, a
  stored request has \<open>sent = True\<close> exactly when its status is \<open>completed\<close>, and has an
  \<open>sms_sid\<close> exactly when \<open>sent = True\<close>; a request that is not sent has the status
  \<open>pending\<close>. A successful \<open>create_sms_payment\<close> leaves under the new charge id a request
  that is pending, not sent and without \<open>sms_sid\<close>. A \<open>pay_and_send_sms\<close> on an unsent,
  paid charge whose send succeeds leaves the request with \<open>sent = True\<close>, status
  \<open>completed\<close> and the \<open>sms_sid\<close> of the send, all three at once; and whatever a call
  of \<open>pay_and_send_sms\<close> does, each entry of \<open>pending_sms\<close> is afterwards either as
  before or changed in exactly that way.
\<close>

theorem sent_completed_receipt_correspond:
  "(\<forall>k r. pending_sms (run calls empty_state) k = Some r \<longrightarrow>
      (sent r \<longleftrightarrow> status r = ''completed'')
      \<and> (sms_sid r \<noteq> None \<longleftrightarrow> sent r)
      \<and> (\<not> sent r \<longrightarrow> status r = ''pending''))
   \<and> (\<forall>res st'. create_sms_payment ev post phone msg uid st = (Inr res, st') \<longrightarrow>
        (\<exists>key r. hash_key (cr_charge_id res) = Inr key \<and> pending_sms st' key = Some r
           \<and> status r = ''pending'' \<and> \<not> sent r \<and> sms_sid r = None))
   \<and> (\<forall>r charge client sid.
        pending_sms pay_st (KStr charge_id) = Some r \<longrightarrow> \<not> sent r \<longrightarrow>
        request_json pay_ev query = Inr charge \<longrightarrow>
        getitem2 charge ''data'' ''status'' = Inr (JStr ''paid'') \<longrightarrow>
        get_twilio_client pay_ev = Inr client \<longrightarrow> \<not> unset (twilio_phone_number pay_ev) \<longrightarrow>
        pending_sms (snd (pay_and_send_sms pay_ev query (Sent sid) charge_id pay_st)) (KStr charge_id) =
          Some (r\<lparr>sent := True, status := ''completed'', sms_sid := Some sid\<rparr>))
   \<and> (\<forall>res st' k. pay_and_send_sms pay_ev query tw charge_id pay_st = (res, st') \<longrightarrow>
        pending_sms st' k = pending_sms pay_st k \<or>
        (k = KStr charge_id \<and>
         (\<exists>r sid. pending_sms pay_st k = Some r \<and> \<not> sent r \<and> tw = Sent sid \<and>
            pending_sms st' k =
              Some (r\<lparr>sent := True, status := ''completed'', sms_sid := Some sid\<rparr>))))"
proof -
  have inv: "(sent r \<longleftrightarrow> status r = ''completed'')
      \<and> (sms_sid r \<noteq> None \<longleftrightarrow> sent r)
      \<and> (\<not> sent r \<longrightarrow> status r = ''pending'')"
    if reg: "pending_sms (run calls empty_state) k = Some r" for k r
  proof -
    have "registry_ok (run calls empty_state)"
      by (rule registry_ok_run) (rule registry_ok_empty)
    with reg have "request_ok r" by (simp add: registry_ok_def)
    then show ?thesis by (auto simp: request_ok_def split: if_splits)
  qed
  then have p1: "\<forall>k r. pending_sms (run calls empty_state) k = Some r \<longrightarrow>
      (sent r \<longleftrightarrow> status r = ''completed'')
      \<and> (sms_sid r \<noteq> None \<longleftrightarrow> sent r)
      \<and> (\<not> sent r \<longrightarrow> status r = ''pending'')"
    by blast
  have p2: "\<forall>res st'. create_sms_payment ev post phone msg uid st = (Inr res, st') \<longrightarrow>
        (\<exists>key r. hash_key (cr_charge_id res) = Inr key \<and> pending_sms st' key = Some r
           \<and> status r = ''pending'' \<and> \<not> sent r \<and> sms_sid r = None)"
    by (intro allI impI) (rule create_stores_pending)
  have p3: "\<forall>r charge client sid.
        pending_sms pay_st (KStr charge_id) = Some r \<longrightarrow> \<not> sent r \<longrightarrow>
        request_json pay_ev query = Inr charge \<longrightarrow>
        getitem2 charge ''data'' ''status'' = Inr (JStr ''paid'') \<longrightarrow>
        get_twilio_client pay_ev = Inr client \<longrightarrow> \<not> unset (twilio_phone_number pay_ev) \<longrightarrow>
        pending_sms (snd (pay_and_send_sms pay_ev query (Sent sid) charge_id pay_st)) (KStr charge_id) =
          Some (r\<lparr>sent := True, status := ''completed'', sms_sid := Some sid\<rparr>)"
    by (intro allI impI) (rule pay_marks_sent)
  have p4: "\<forall>res st' k. pay_and_send_sms pay_ev query tw charge_id pay_st = (res, st') \<longrightarrow>
        pending_sms st' k = pending_sms pay_st k \<or>
        (k = KStr charge_id \<and>
         (\<exists>r sid. pending_sms pay_st k = Some r \<and> \<not> sent r \<and> tw = Sent sid \<and>
            pending_sms st' k =
              Some (r\<lparr>sent := True, status := ''completed'', sms_sid := Some sid\<rparr>)))"
    by (intro allI impI) (rule pay_frame)
  show ?thesis by (intro conjI) (fact p1, fact p2, fact p3, fact p4)
qed


theorem sent_completed_receipt_correspond_witness:
  "pending_sms (run demo_calls empty_state) (KStr ''ch_1'') = Some (mark_sent ''SM1'' demo_request)
   \<and> sent (mark_sent ''SM1'' demo_request)
   \<and> status (mark_sent ''SM1'' demo_request) = ''completed''
   \<and> sms_sid (mark_sent ''SM1'' demo_request) \<noteq> None
   \<and> (\<exists>key r. hash_key (JStr ''ch_1'') = Inr key \<and> pending_sms demo_pending key = Some r
         \<and> status r = ''pending'' \<and> \<not> sent r \<and> sms_sid r = None)
   \<and> pending_sms (snd (pay_and_send_sms demo_env demo_paid (Sent ''SM1'') ''ch_1'' demo_pending))
        (KStr ''ch_1'')
       = Some (demo_request\<lparr>sent := True, status := ''completed'', sms_sid := Some ''SM1''\<rparr>)"
proof -
  note inst = sent_completed_receipt_correspond
    [where calls = demo_calls and ev = demo_env and post = demo_created
      and phone = "''+15551234567''" and msg = "''Hello''" and uid = "''anonymous''"
      and st = empty_state and pay_ev = demo_env and query = demo_paid
      and tw = "Sent ''SM1''" and charge_id = "''ch_1''" and pay_st = demo_pending]
  have reg: "pending_sms (run demo_calls empty_state) (KStr ''ch_1'')
      = Some (mark_sent ''SM1'' demo_request)"
    by (simp add: demo_completed_reached demo_completed_def)
  have s: "sent (mark_sent ''SM1'' demo_request)" by (simp add: mark_sent_def)
  have created: "create_sms_payment demo_env demo_created ''+15551234567'' ''Hello'' ''anonymous''
      empty_state =
       (Inr \<lparr>cr_charge_id = JStr ''ch_1'', cr_amount = Finite (1 / 10), cr_currency = ''USD'',
             cr_phone_number = ''+15551234567'', cr_lightning_invoice = JStr ''lntb1/x=y'',
             cr_hosted_checkout_url = JStr ''https://checkout.example/ch_1'',
             cr_expires_at = JNum 1700003600\<rparr>, demo_pending)"
    by (simp add: demo_defs tool_defs)
  have pending: "pending_sms demo_pending (KStr ''ch_1'') = Some demo_request"
    by (simp add: demo_pending_def)
  have unsent: "\<not> sent demo_request"
    by (simp add: demo_request_def new_request_def)
  have query: "request_json demo_env demo_paid = Inr demo_paid_charge"
    by (simp add: demo_defs tool_defs)
  have paid: "getitem2 demo_paid_charge ''data'' ''status'' = Inr (JStr ''paid'')"
    by (simp add: demo_paid_charge_def getitem2_def)
  have client: "get_twilio_client demo_env = Inr (''AC1'', ''token'')"
    by (simp add: demo_env_def get_twilio_client_def)
  have number: "\<not> unset (twilio_phone_number demo_env)"
    by (simp add: demo_env_def)
  from inst reg s have a: "status (mark_sent ''SM1'' demo_request) = ''completed''
      \<and> sms_sid (mark_sent ''SM1'' demo_request) \<noteq> None"
    by blast
  from inst created have b: "\<exists>key r. hash_key (cr_charge_id
         \<lparr>cr_charge_id = JStr ''ch_1'', cr_amount = Finite (1 / 10), cr_currency = ''USD'',
             cr_phone_number = ''+15551234567'', cr_lightning_invoice = JStr ''lntb1/x=y'',
             cr_hosted_checkout_url = JStr ''https://checkout.example/ch_1'',
             cr_expires_at = JNum 1700003600\<rparr>) = Inr key
         \<and> pending_sms demo_pending key = Some r
         \<and> status r = ''pending'' \<and> \<not> sent r \<and> sms_sid r = None"
    by blast
  from inst pending unsent query paid client number
  have c: "pending_sms (snd (pay_and_send_sms demo_env demo_paid (Sent ''SM1'') ''ch_1''
        demo_pending)) (KStr ''ch_1'')
       = Some (demo_request\<lparr>sent := True, status := ''completed'', sms_sid := Some ''SM1''\<rparr>)"
    by blast
  from reg s a b c show ?thesis by simp
qed

end
